theory Spec2Isabelle
  imports Complex_Main "HOL-Library.Sublist"
begin

section \<open>JavaScript values used by the frame composition engine\<close>

text \<open>
  The engine (\<^verbatim>\<open>createFrameSource\<close> and its two closures \<^verbatim>\<open>readNextFrame\<close> and
  \<^verbatim>\<open>close\<close>) computes with JavaScript numbers. Times, layer starts and
  layer durations are modelled as exact reals, as the data model of the specification has
  them; rounding of IEEE doubles is not modelled. What a division can return beyond a
  finite value is written out: dividing by zero gives an infinity or \<^verbatim>\<open>NaN\<close>.
\<close>

datatype number = Finite real | PosInfinity | NegInfinity | NaN

text \<open>\<^verbatim>\<open>a / b\<close> on finite operands.\<close>

definition js_divide :: "real \<Rightarrow> real \<Rightarrow> number" where
  "js_divide a b =
     (if b \<noteq> 0 then Finite (a / b)
      else if 0 < a then PosInfinity
      else if a < 0 then NegInfinity
      else NaN)"

text \<open>\<^verbatim>\<open>x >= c\<close> and \<^verbatim>\<open>x <= c\<close> against a finite constant: every comparison with
  \<^verbatim>\<open>NaN\<close> is false.\<close>

fun js_ge :: "number \<Rightarrow> real \<Rightarrow> bool" where
  "js_ge (Finite x) c = (c \<le> x)"
| "js_ge PosInfinity c = True"
| "js_ge NegInfinity c = False"
| "js_ge NaN c = False"

fun js_le :: "number \<Rightarrow> real \<Rightarrow> bool" where
  "js_le (Finite x) c = (x \<le> c)"
| "js_le PosInfinity c = False"
| "js_le NegInfinity c = True"
| "js_le NaN c = False"

text \<open>Truthiness of a value that is a string or \<^verbatim>\<open>undefined\<close>: the empty string is
  falsy.\<close>

fun truthy :: "string option \<Rightarrow> bool" where
  "truthy None = False"
| "truthy (Some s) = (s \<noteq> [])"

text \<open>\<^verbatim>\<open>a || b\<close> for such a value and a string.\<close>

definition js_or :: "string option \<Rightarrow> string \<Rightarrow> string" where
  "js_or a b = (if truthy a then the a else b)"

text \<open>
  \<^verbatim>\<open>JSON.stringify\<close> of an array: the elements' own serialisations, separated by
  commas, in brackets. How one canvas object serialises belongs to the scene-graph
  library and is a parameter.
\<close>

fun join :: "string \<Rightarrow> string list \<Rightarrow> string" where
  "join sep [] = []"
| "join sep [x] = x"
| "join sep (x # y # ys) = x @ sep @ join sep (y # ys)"

definition JSON_stringify :: "('o \<Rightarrow> string) \<Rightarrow> 'o list \<Rightarrow> string" where
  "JSON_stringify ser objs = ''['' @ join '','' (map ser objs) @ '']''"

section \<open>Data model\<close>

datatype error = AssertionError string | Thrown string

text \<open>A layer: \<^verbatim>\<open>const { type, ...params } = layer\<close>; the engine itself reads
  \<^verbatim>\<open>type\<close>, \<^verbatim>\<open>start\<close> and \<^verbatim>\<open>layerDuration\<close>.\<close>

record 'p layer =
  type :: string
  start :: real
  layerDuration :: real
  params :: 'p

text \<open>The canvas surface: \<^verbatim>\<open>canvas._objects\<close> is the ordered object list.\<close>

record 'o canvas =
  canvas_width :: nat
  canvas_height :: nat
  objects :: "'o list"

text \<open>Modelled from the spec: \<^verbatim>\<open>createFabricCanvas\<close> is in \<^verbatim>\<open>./fabric.js\<close>, which is not
  among the source files; section 4.3 step 1 has it create a fresh canvas surface sized
  to the output resolution.\<close>

definition createFabricCanvas :: "nat \<Rightarrow> nat \<Rightarrow> 'o canvas" where
  "createFabricCanvas w h = \<lparr>canvas_width = w, canvas_height = h, objects = []\<rparr>"

text \<open>\<^verbatim>\<open>canvas.add(obj)\<close> appends to the object list.\<close>

definition canvas_add :: "'o canvas \<Rightarrow> 'o \<Rightarrow> 'o canvas" where
  "canvas_add c obj = c\<lparr>objects := objects c @ [obj]\<rparr>"

text \<open>
  A frame source is an object with two methods and whatever private state its
  closures capture (several of the fabric sources keep mutable variables). The state is
  carried explicitly. \<^verbatim>\<open>readNextFrame(progress, canvas)\<close> either throws, or returns a raw
  buffer or nothing, having possibly changed the canvas and its own state.
\<close>

record ('s, 'o, 'b) frameSource =
  state :: 's
  frameSource_readNextFrame ::
    "'s \<Rightarrow> number \<Rightarrow> 'o canvas \<Rightarrow> error + ('b option \<times> 'o canvas \<times> 's)"
  frameSource_close :: "'s \<Rightarrow> error + 's"

text \<open>One entry \<^verbatim>\<open>{ layer, frameSource }\<close> of \<^verbatim>\<open>layerFrameSources\<close>.\<close>

record ('p, 's, 'o, 'b) layerFrameSource =
  layer :: "'p layer"
  frameSource :: "('s, 'o, 'b) frameSource"

text \<open>What the closures \<^verbatim>\<open>readNextFrame\<close> and \<^verbatim>\<open>close\<close> capture.\<close>

record ('p, 's, 'o, 'b) engine =
  width :: nat
  height :: nat
  layerFrameSources :: "('p, 's, 'o, 'b) layerFrameSource list"

text \<open>
  The functions of \<^verbatim>\<open>./fabric.js\<close> and of the scene-graph library that the engine calls;
  they are not among the source files and are parameters: wrapping a raw buffer as an
  image object, rasterising a canvas, serialising one object (for \<^verbatim>\<open>JSON.stringify\<close>),
  and the constructor \<^verbatim>\<open>fabric.Rect\<close>.
\<close>

record rectOptions =
  left :: real
  right :: real
  rect_width :: nat
  rect_height :: nat
  fill :: string

record ('o, 'b) fabric =
  rgbaToFabricImage :: "nat \<Rightarrow> nat \<Rightarrow> 'b \<Rightarrow> 'o"
  renderFabricCanvas :: "'o canvas \<Rightarrow> 'b"
  toJSON :: "'o \<Rightarrow> string"
  Rect :: "rectOptions \<Rightarrow> 'o"

text \<open>
  The calls the engine makes to its collaborators, in the order it makes them. A frame
  source is named by its index in \<^verbatim>\<open>layerFrameSources\<close>.
\<close>

datatype ('o, 'b) event =
    CreateFrameSourceFunc nat string
  | FrameSourceCreated nat
  | CreateFabricCanvas nat nat
  | FrameSourceReadNextFrame nat number
  | RgbaToFabricImage 'b
  | CanvasAdd 'o
  | JSONStringify
  | CanvasClear
  | CanvasDispose
  | RenderFabricCanvas

text \<open>What \<^verbatim>\<open>readNextFrame\<close> returns: the bare buffer (\<^verbatim>\<open>return rgba\<close>), or the
  two-element array \<^verbatim>\<open>[rgba, objectsString]\<close> whose first element is \<^verbatim>\<open>undefined\<close> when the
  canvas has not changed.\<close>

datatype 'b composed = Rgba 'b | Tuple "'b option" string

section \<open>\<^verbatim>\<open>readNextFrame\<close>\<close>

definition offsetProgress :: "real \<Rightarrow> 'p layer \<Rightarrow> number" where
  "offsetProgress time l = js_divide (time - start l) (layerDuration l)"

definition shouldDrawLayer :: "real \<Rightarrow> 'p layer \<Rightarrow> bool" where
  "shouldDrawLayer time l =
     (js_ge (offsetProgress time l) 0 \<and> js_le (offsetProgress time l) 1)"

text \<open>How one pass through the body of the \<^verbatim>\<open>for\<close> loop ends: the loop goes on with the
  canvas, the function returns a buffer, or an exception leaves it.\<close>

datatype ('o, 'b) outcome = Continue "'o canvas" | Return 'b | Throw error

text \<open>
  The console timers that \<^verbatim>\<open>logTimes\<close> switches on, and the console line that
  \<^verbatim>\<open>verbose\<close> switches on in \<^verbatim>\<open>createFrameSource\<close>, change nothing the engine returns and
  are left out. \<^verbatim>\<open>rgbaToFabricImage\<close> and \<^verbatim>\<open>renderFabricCanvas\<close> are taken to return.
\<close>

text \<open>
  The body of the loop for the entry at index \<open>i\<close>; \<open>n\<close> is
  \<^verbatim>\<open>layerFrameSources.length\<close>. It gives the calls made, the entry with the state its frame
  source is left in, and the outcome.
\<close>

definition drawLayer ::
  "('o, 'b) fabric \<Rightarrow> nat \<Rightarrow> nat \<Rightarrow> real \<Rightarrow> nat \<Rightarrow> nat \<Rightarrow>
   ('p, 's, 'o, 'b) layerFrameSource \<Rightarrow> 'o canvas \<Rightarrow>
   ('o, 'b) event list \<times> ('p, 's, 'o, 'b) layerFrameSource \<times> ('o, 'b) outcome" where
  "drawLayer fab w h time n i lf canvas =
     (if shouldDrawLayer time (layer lf) then
        (case frameSource_readNextFrame (frameSource lf) (state (frameSource lf))
                (offsetProgress time (layer lf)) canvas of
           Inl e \<Rightarrow> ([FrameSourceReadNextFrame i (offsetProgress time (layer lf))], lf, Throw e)
         | Inr (rgba, canvas', s') \<Rightarrow>
            (let lf' = lf\<lparr>frameSource := (frameSource lf)\<lparr>state := s'\<rparr>\<rparr> in
             case rgba of
               Some buf \<Rightarrow>
                 if n = 1 then
                   ([FrameSourceReadNextFrame i (offsetProgress time (layer lf))], lf', Return buf)
                 else
                   (let img = rgbaToFabricImage fab w h buf in
                    ([FrameSourceReadNextFrame i (offsetProgress time (layer lf)),
                      RgbaToFabricImage buf, CanvasAdd img],
                     lf', Continue (canvas_add canvas' img)))
             | None \<Rightarrow>
                 ([FrameSourceReadNextFrame i (offsetProgress time (layer lf))], lf',
                  Continue canvas')))
      else ([], lf, Continue canvas))"

text \<open>The loop over \<^verbatim>\<open>layerFrameSources\<close>, from index \<open>i\<close> on.\<close>

fun drawLayers ::
  "('o, 'b) fabric \<Rightarrow> nat \<Rightarrow> nat \<Rightarrow> real \<Rightarrow> nat \<Rightarrow> nat \<Rightarrow>
   ('p, 's, 'o, 'b) layerFrameSource list \<Rightarrow> 'o canvas \<Rightarrow>
   ('o, 'b) event list \<times> ('p, 's, 'o, 'b) layerFrameSource list \<times> ('o, 'b) outcome" where
  "drawLayers fab w h time n i [] canvas = ([], [], Continue canvas)"
| "drawLayers fab w h time n i (lf # rest) canvas =
     (case drawLayer fab w h time n i lf canvas of
        (tr, lf', Continue canvas') \<Rightarrow>
          (case drawLayers fab w h time n (Suc i) rest canvas' of
             (tr', rest', out) \<Rightarrow> (tr @ tr', lf' # rest', out))
      | (tr, lf', out) \<Rightarrow> (tr, lf' # rest, out))"

text \<open>Lines 66 to 94 of \<^verbatim>\<open>readNextFrame\<close>: a fresh canvas, and the loop over all of
  \<^verbatim>\<open>layerFrameSources\<close>.\<close>

definition composeLayers ::
  "('o, 'b) fabric \<Rightarrow> ('p, 's, 'o, 'b) engine \<Rightarrow> real \<Rightarrow>
   ('o, 'b) event list \<times> ('p, 's, 'o, 'b) layerFrameSource list \<times> ('o, 'b) outcome" where
  "composeLayers fab eng time =
     drawLayers fab (width eng) (height eng) time (length (layerFrameSources eng)) 0
       (layerFrameSources eng) (createFabricCanvas (width eng) (height eng))"

text \<open>
  \<^verbatim>\<open>readNextFrame({ time, lastCanvasObjects })\<close>: the calls made, the engine with its
  frame sources' states, and the exception or the value returned.
\<close>

definition readNextFrame ::
  "('o, 'b) fabric \<Rightarrow> ('p, 's, 'o, 'b) engine \<Rightarrow> real \<Rightarrow> string option \<Rightarrow>
   ('o, 'b) event list \<times> ('p, 's, 'o, 'b) engine \<times> (error + 'b composed)" where
  "readNextFrame fab eng time lastCanvasObjects =
     (case composeLayers fab eng time of
        (tr, lfs, Throw e) \<Rightarrow>
          (CreateFabricCanvas (width eng) (height eng) # tr,
           eng\<lparr>layerFrameSources := lfs\<rparr>, Inl e)
      | (tr, lfs, Return rgba) \<Rightarrow>
          (CreateFabricCanvas (width eng) (height eng) # tr,
           eng\<lparr>layerFrameSources := lfs\<rparr>, Inr (Rgba rgba))
      | (tr, lfs, Continue canvas) \<Rightarrow>
          (let objectsString = JSON_stringify (toJSON fab) (objects canvas) in
           if truthy lastCanvasObjects \<and> Some objectsString = lastCanvasObjects then
             (CreateFabricCanvas (width eng) (height eng) # tr
                @ [JSONStringify, CanvasClear, CanvasDispose],
              eng\<lparr>layerFrameSources := lfs\<rparr>, Inr (Tuple None objectsString))
           else
             (CreateFabricCanvas (width eng) (height eng) # tr
                @ [JSONStringify, RenderFabricCanvas],
              eng\<lparr>layerFrameSources := lfs\<rparr>,
              Inr (Tuple (Some (renderFabricCanvas fab canvas)) objectsString))))"

text \<open>The calls to frame sources' \<^verbatim>\<open>readNextFrame\<close> in a list of calls, in order.\<close>

fun renderCalls :: "('o, 'b) event list \<Rightarrow> (nat \<times> number) list" where
  "renderCalls [] = []"
| "renderCalls (FrameSourceReadNextFrame i p # es) = (i, p) # renderCalls es"
| "renderCalls (e # es) = renderCalls es"

text \<open>The entries of \<open>lfs\<close> that are active at \<open>time\<close>, each with its index (counted
  from \<open>i\<close>) and the progress it is to be rendered at.\<close>

fun activeLayers ::
  "real \<Rightarrow> nat \<Rightarrow> ('p, 's, 'o, 'b) layerFrameSource list \<Rightarrow> (nat \<times> number) list" where
  "activeLayers time i [] = []"
| "activeLayers time i (lf # rest) =
     (if shouldDrawLayer time (layer lf) then [(i, offsetProgress time (layer lf))] else [])
     @ activeLayers time (Suc i) rest"

text \<open>The canvas as the loop reaches index \<open>k\<close> (after the entries before it), if it
  gets there.\<close>

definition canvasAt ::
  "('o, 'b) fabric \<Rightarrow> ('p, 's, 'o, 'b) engine \<Rightarrow> real \<Rightarrow> nat \<Rightarrow> 'o canvas option" where
  "canvasAt fab eng time k =
     (case drawLayers fab (width eng) (height eng) time (length (layerFrameSources eng)) 0
             (take k (layerFrameSources eng)) (createFabricCanvas (width eng) (height eng)) of
        (tr, lfs, Continue canvas) \<Rightarrow> Some canvas
      | (tr, lfs, out) \<Rightarrow> None)"

text \<open>A frame source that only ever adds to the canvas it is given. The frame sources
  of \<^verbatim>\<open>./fabric/fabricFrameSources.js\<close> that draw do so by \<^verbatim>\<open>canvas.add\<close> alone; a custom
  one is free to do otherwise.\<close>

definition appendOnly :: "('s, 'o, 'b) frameSource \<Rightarrow> bool" where
  "appendOnly fs =
     (\<forall>s p c r c' s'. frameSource_readNextFrame fs s p c = Inr (r, c', s')
        \<longrightarrow> prefix (objects c) (objects c'))"

section \<open>Rasterisation\<close>

text \<open>
  Modelled from the spec: rasterisation (\<^verbatim>\<open>renderFabricCanvas\<close> of \<^verbatim>\<open>./fabric.js\<close> and the
  renderer of the scene-graph library) is not among the source files. Section 4.3 has the
  order of the object list be "the compositing z-order, first = bottom", and section 8
  has a later object occlude an earlier one at overlapping pixels. So the objects are
  painted in list order, each one opaque where it draws: \<open>paint obj px\<close> is the colour
  object \<open>obj\<close> gives pixel \<open>px\<close>, or \<open>None\<close> where it does not draw.
\<close>

definition paintObject :: "('o \<Rightarrow> nat \<times> nat \<Rightarrow> 'c option) \<Rightarrow> nat \<times> nat \<Rightarrow> 'c option \<Rightarrow> 'o \<Rightarrow> 'c option" where
  "paintObject paint px below obj = (case paint obj px of Some c \<Rightarrow> Some c | None \<Rightarrow> below)"

definition pixelColour :: "('o \<Rightarrow> nat \<times> nat \<Rightarrow> 'c option) \<Rightarrow> 'o list \<Rightarrow> nat \<times> nat \<Rightarrow> 'c option" where
  "pixelColour paint objs px = foldl (paintObject paint px) None objs"

definition pixels :: "nat \<Rightarrow> nat \<Rightarrow> (nat \<times> nat) list" where
  "pixels w h = concat (map (\<lambda>y. map (\<lambda>x. (x, y)) [0..<w]) [0..<h])"

definition paintCanvas :: "('o \<Rightarrow> nat \<times> nat \<Rightarrow> 'c option) \<Rightarrow> 'o canvas \<Rightarrow> 'c option list" where
  "paintCanvas paint canvas =
     map (pixelColour paint (objects canvas)) (pixels (canvas_width canvas) (canvas_height canvas))"

section \<open>The fill-colour frame source\<close>

text \<open>
  The options object a factory receives. Of its fields the model keeps the frame size,
  the clip duration, the channel count and \<^verbatim>\<open>params\<close>; the tool paths and logging flags
  only reach the decoders and the console. In the source \<^verbatim>\<open>params\<close> is the layer without
  its \<^verbatim>\<open>type\<close>; here it is the layer's type-specific part, since no factory modelled
  reads \<^verbatim>\<open>start\<close> or \<^verbatim>\<open>layerDuration\<close> from it.
\<close>

record 'p opts =
  opts_width :: nat
  opts_height :: nat
  opts_duration :: real
  opts_channels :: nat
  opts_params :: 'p

record fillColorParams =
  color :: "string option"

text \<open>What a fabric frame source function returns: \<^verbatim>\<open>{ onRender }\<close>.\<close>

record 'o handlers =
  onRender :: "number \<Rightarrow> 'o canvas \<Rightarrow> 'o canvas"

text \<open>
  \<^verbatim>\<open>fillColorFrameSource({ params, width, height })\<close>. The random generator of
  \<^verbatim>\<open>../../colors\<close> is not among the source files: \<open>getRandomColor\<close> stands for the
  expression \<^verbatim>\<open>getRandomColors(1)[0]\<close>, which reads the generator's state \<open>world\<close> and
  leaves a new one.
\<close>

definition fillColorFrameSource ::
  "('o, 'b) fabric \<Rightarrow> ('w \<Rightarrow> string \<times> 'w) \<Rightarrow> fillColorParams opts \<Rightarrow> 'w \<Rightarrow> 'o handlers \<times> 'w" where
  "fillColorFrameSource fab getRandomColor opts world =
     (let color = color (opts_params opts);
          (randomColor, world') = getRandomColor world
      in (\<lparr>onRender = (\<lambda>progress canvas.
             (let rect = Rect fab \<lparr>left = 0, right = 0, rect_width = opts_width opts,
                                   rect_height = opts_height opts,
                                   fill = js_or color randomColor\<rparr>
              in canvas_add canvas rect))\<rparr>,
          world'))"


section \<open>\<^verbatim>\<open>createFrameSource\<close>\<close>

record 'p clip =
  layers :: "'p layer list"
  duration :: real

text \<open>The table \<^verbatim>\<open>fabricFrameSources\<close>; its values are the functions of
  \<^verbatim>\<open>./fabric/fabricFrameSources.js\<close>, named here by a constructor each.\<close>

datatype fabricFrameSourceFunc =
    CustomFabricFrameSource | ImageFrameSource | ImageOverlayFrameSource | TitleFrameSource
  | SubtitleFrameSource | LinearGradientFrameSource | RadialGradientFrameSource
  | FillColorFrameSource | NewsTitleFrameSource | SlideInTextFrameSource

definition fabricFrameSources :: "(string \<times> fabricFrameSourceFunc) list" where
  "fabricFrameSources =
     [(''fabric'', CustomFabricFrameSource),
      (''image'', ImageFrameSource),
      (''image-overlay'', ImageOverlayFrameSource),
      (''title'', TitleFrameSource),
      (''subtitle'', SubtitleFrameSource),
      (''linear-gradient'', LinearGradientFrameSource),
      (''radial-gradient'', RadialGradientFrameSource),
      (''fill-color'', FillColorFrameSource),
      (''news-title'', NewsTitleFrameSource),
      (''slide-in-text'', SlideInTextFrameSource)]"

text \<open>The second table, written inline in the source.\<close>

datatype otherFrameSourceFunc =
  CreateVideoFrameSource | CreateGlFrameSource | CreateCustomCanvasFrameSource

definition otherFrameSources :: "(string \<times> otherFrameSourceFunc) list" where
  "otherFrameSources =
     [(''video'', CreateVideoFrameSource),
      (''gl'', CreateGlFrameSource),
      (''canvas'', CreateCustomCanvasFrameSource)]"

text \<open>
  Both tables are object literals, and \<^verbatim>\<open>table[type]\<close> is a property read: a key that is
  not an own property of the object is looked up along its prototype chain, which for an
  object literal is \<^verbatim>\<open>Object.prototype\<close>. Every property of \<^verbatim>\<open>Object.prototype\<close> is a
  function, but \<^verbatim>\<open>__proto__\<close>, which reads as \<^verbatim>\<open>Object.prototype\<close> itself; all are truthy.
\<close>

definition Object_prototype :: "string list" where
  "Object_prototype =
     [''constructor'', ''__defineGetter__'', ''__defineSetter__'', ''hasOwnProperty'',
      ''__lookupGetter__'', ''__lookupSetter__'', ''isPrototypeOf'',
      ''propertyIsEnumerable'', ''toString'', ''valueOf'', ''__proto__'',
      ''toLocaleString'']"

datatype 'v property = Own 'v | Inherited string | Undefined

definition getProperty :: "(string \<times> 'v) list \<Rightarrow> string \<Rightarrow> 'v property" where
  "getProperty obj key =
     (case map_of obj key of
        Some v \<Rightarrow> Own v
      | None \<Rightarrow> if key \<in> set Object_prototype then Inherited key else Undefined)"

fun property_truthy :: "'v property \<Rightarrow> bool" where
  "property_truthy (Own v) = True"
| "property_truthy (Inherited k) = True"
| "property_truthy Undefined = False"

text \<open>The value of \<^verbatim>\<open>createFrameSourceFunc\<close> before the assertion: the arrow function
  around \<^verbatim>\<open>createFabricFrameSource(fabricFrameSources[type], opts)\<close>, or what the second
  table gives.\<close>

datatype createFrameSourceFunc =
    ViaCreateFabricFrameSource "fabricFrameSourceFunc property"
  | Direct "otherFrameSourceFunc property"

definition selectCreateFrameSourceFunc :: "string \<Rightarrow> createFrameSourceFunc" where
  "selectCreateFrameSourceFunc ty =
     (if property_truthy (getProperty fabricFrameSources ty)
      then ViaCreateFabricFrameSource (getProperty fabricFrameSources ty)
      else Direct (getProperty otherFrameSources ty))"

fun func_truthy :: "createFrameSourceFunc \<Rightarrow> bool" where
  "func_truthy (ViaCreateFabricFrameSource p) = True"
| "func_truthy (Direct p) = property_truthy p"

text \<open>
  The mapper given to \<^verbatim>\<open>pMap\<close>, for one layer. The factories it calls
  (\<^verbatim>\<open>createFabricFrameSource\<close>, \<^verbatim>\<open>createVideoFrameSource\<close>, \<^verbatim>\<open>createGlFrameSource\<close>,
  \<^verbatim>\<open>createCustomCanvasFrameSource\<close>) are not among the source files: \<open>call f opts world\<close>
  stands for calling the selected function. A factory reads files, starts decoders and
  draws random numbers; \<open>world\<close> is the state of all that, which it may change.
\<close>

definition mapper ::
  "(createFrameSourceFunc \<Rightarrow> 'p opts \<Rightarrow> 'w \<Rightarrow> (error + ('s, 'o, 'b) frameSource) \<times> 'w) \<Rightarrow>
   nat \<Rightarrow> nat \<Rightarrow> real \<Rightarrow> nat \<Rightarrow> 'p layer \<Rightarrow> nat \<Rightarrow> 'w \<Rightarrow>
   ('o, 'b) event list \<times> (error + ('p, 's, 'o, 'b) layerFrameSource) \<times> 'w" where
  "mapper call w h dur channels l layerIndex world =
     (let createFrameSourceFunc = selectCreateFrameSourceFunc (type l) in
      if \<not> func_truthy createFrameSourceFunc
      then ([], Inl (AssertionError (''Invalid type '' @ type l)), world)
      else
        (case call createFrameSourceFunc
                \<lparr>opts_width = w, opts_height = h, opts_duration = dur,
                 opts_channels = channels, opts_params = params l\<rparr> world of
           (Inl e, world') \<Rightarrow> ([CreateFrameSourceFunc layerIndex (type l)], Inl e, world')
         | (Inr fs, world') \<Rightarrow>
             ([CreateFrameSourceFunc layerIndex (type l), FrameSourceCreated layerIndex],
              Inr \<lparr>layer = l, frameSource = fs\<rparr>, world')))"

text \<open>
  \<^verbatim>\<open>pMap(xs, f, { concurrency: 1 })\<close>: with one mapper running at a time the elements are
  mapped in order, each after the one before has settled, and the first rejection
  rejects the whole (\<^verbatim>\<open>stopOnError\<close> is on by default), no later element being mapped.
\<close>

fun pMap1 ::
  "('a \<Rightarrow> nat \<Rightarrow> 'w \<Rightarrow> 'e list \<times> (error + 'r) \<times> 'w) \<Rightarrow> nat \<Rightarrow> 'a list \<Rightarrow> 'w \<Rightarrow>
   'e list \<times> (error + 'r list) \<times> 'w" where
  "pMap1 f i [] world = ([], Inr [], world)"
| "pMap1 f i (x # xs) world =
     (case f x i world of
        (tr, Inl e, world') \<Rightarrow> (tr, Inl e, world')
      | (tr, Inr r, world') \<Rightarrow>
          (case pMap1 f (Suc i) xs world' of
             (tr', Inl e, world'') \<Rightarrow> (tr @ tr', Inl e, world'')
           | (tr', Inr rs, world'') \<Rightarrow> (tr @ tr', Inr (r # rs), world'')))"

definition visualLayers :: "'p clip \<Rightarrow> 'p layer list" where
  "visualLayers c = filter (\<lambda>l. type l \<noteq> ''audio'') (layers c)"

text \<open>\<^verbatim>\<open>createFrameSource\<close>: the calls made, the rejection or the engine (the object
  holding \<^verbatim>\<open>readNextFrame\<close> and \<^verbatim>\<open>close\<close>), and the world the factories leave.\<close>

definition createFrameSource ::
  "(createFrameSourceFunc \<Rightarrow> 'p opts \<Rightarrow> 'w \<Rightarrow> (error + ('s, 'o, 'b) frameSource) \<times> 'w) \<Rightarrow>
   'p clip \<Rightarrow> nat \<Rightarrow> nat \<Rightarrow> nat \<Rightarrow> 'w \<Rightarrow>
   ('o, 'b) event list \<times> (error + ('p, 's, 'o, 'b) engine) \<times> 'w" where
  "createFrameSource call c w h channels world =
     (case pMap1 (mapper call w h (duration c) channels) 0 (visualLayers c) world of
        (tr, Inl e, world') \<Rightarrow> (tr, Inl e, world')
      | (tr, Inr lfs, world') \<Rightarrow>
          (tr, Inr \<lparr>width = w, height = h, layerFrameSources = lfs\<rparr>, world'))"


text \<open>
  The other closure, \<^verbatim>\<open>close\<close>, is the one call
  \<^verbatim>\<open>pMap(layerFrameSources, ({ frameSource }) => frameSource.close())\<close> with the default,
  unbounded concurrency. Which of the frame sources have had their \<^verbatim>\<open>close\<close> called by
  the time one of them rejects is decided by the order in which the library runs its
  promise callbacks; that order is not part of this model, and \<^verbatim>\<open>close\<close> is not
  modelled.
\<close>


section \<open>Examples\<close>

text \<open>
  A small scene-graph library to run the engine on in the examples: rectangles and
  images over colour names, one colour (or nothing) per pixel, painted in list order.
\<close>

datatype fabricObject = RectObject rectOptions | ImageObject nat nat "string option list"

fun examplePaint :: "fabricObject \<Rightarrow> nat \<times> nat \<Rightarrow> string option" where
  "examplePaint (RectObject r) (x, y) =
     (if left r \<le> real x \<and> real x < left r + real (rect_width r) \<and> y < rect_height r
      then Some (fill r) else None)"
| "examplePaint (ImageObject w h buf) (x, y) =
     (if x < w \<and> y < h \<and> y * w + x < length buf then buf ! (y * w + x) else None)"

fun exampleToJSON :: "fabricObject \<Rightarrow> string" where
  "exampleToJSON (RectObject r) = ''{rect:'' @ fill r @ ''}''"
| "exampleToJSON (ImageObject w h buf) =
     ''{image:'' @ concat (map (\<lambda>c. case c of None \<Rightarrow> ''-'' | Some s \<Rightarrow> s) buf) @ ''}''"

definition exampleFabric :: "(fabricObject, string option list) fabric" where
  "exampleFabric =
     \<lparr>rgbaToFabricImage = ImageObject,
      renderFabricCanvas = paintCanvas examplePaint,
      toJSON = exampleToJSON,
      Rect = RectObject\<rparr>"

text \<open>A frame source that returns the same raw buffer at every call and leaves the
  canvas alone, as a decoder of a still video would.\<close>

definition bufferSource :: "'b \<Rightarrow> (unit, 'o, 'b) frameSource" where
  "bufferSource buf =
     \<lparr>state = (),
      frameSource_readNextFrame = (\<lambda>s progress canvas. Inr (Some buf, canvas, s)),
      frameSource_close = (\<lambda>s. Inr s)\<rparr>"

definition exampleLayer :: "string \<Rightarrow> real \<Rightarrow> real \<Rightarrow> 'p \<Rightarrow> 'p layer" where
  "exampleLayer ty st dur p = \<lparr>type = ty, start = st, layerDuration = dur, params = p\<rparr>"

text \<open>A background from 0 to 10 and an overlay from 2 to 4, on a frame of two pixels.\<close>

definition twoLayers :: "(unit, unit, fabricObject, string option list) engine" where
  "twoLayers =
     \<lparr>width = 2, height = 1, layerFrameSources =
        [\<lparr>layer = exampleLayer ''video'' 0 10 (),
          frameSource = bufferSource [Some ''red'', Some ''red'']\<rparr>,
         \<lparr>layer = exampleLayer ''video'' 2 2 (),
          frameSource = bufferSource [Some ''blue'', None]\<rparr>]\<rparr>"

definition oneLayer :: "real \<Rightarrow> real \<Rightarrow> (unit, unit, fabricObject, string option list) engine" where
  "oneLayer st dur =
     \<lparr>width = 2, height = 1, layerFrameSources =
        [\<lparr>layer = exampleLayer ''video'' st dur (),
          frameSource = bufferSource [Some ''red'', Some ''red'']\<rparr>]\<rparr>"

text \<open>A random generator whose state is the list of colours it will give.\<close>

fun nextColor :: "string list \<Rightarrow> string \<times> string list" where
  "nextColor [] = (''black'', [])"
| "nextColor (c # cs) = (c, cs)"





text \<open>The options a fill-colour layer's factory gets in the examples.\<close>

definition exampleOpts :: "string option \<Rightarrow> fillColorParams opts" where
  "exampleOpts c =
     \<lparr>opts_width = 2, opts_height = 1, opts_duration = 10, opts_channels = 4,
      opts_params = \<lparr>color = c\<rparr>\<rparr>"

section \<open>Numbers and activity of a layer\<close>








section \<open>The calls of one frame\<close>

lemma renderCalls_append: "renderCalls (xs @ ys) = renderCalls xs @ renderCalls ys"
  by (induction xs rule: renderCalls.induct) auto

lemma drawLayer_calls:
  "drawLayer fab w h time n i lf canvas = (tr, lf', out) \<Longrightarrow>
   renderCalls tr = (if shouldDrawLayer time (layer lf) then [(i, offsetProgress time (layer lf))] else [])"
  by (auto simp: drawLayer_def Let_def split: if_splits sum.splits option.splits prod.splits)


lemma drawLayers_calls_Continue:
  "drawLayers fab w h time n i lfs canvas = (tr, lfs', Continue c) \<Longrightarrow>
   renderCalls tr = activeLayers time i lfs"
proof (induction lfs arbitrary: i canvas tr lfs')
  case Nil
  then show ?case by simp
next
  case (Cons lf rest)
  obtain t1 lf1 o1 where d: "drawLayer fab w h time n i lf canvas = (t1, lf1, o1)"
    by (cases "drawLayer fab w h time n i lf canvas") auto
  note c1 = drawLayer_calls[OF d]
  show ?case
  proof (cases o1)
    case (Continue c')
    obtain t2 r2 o2 where r: "drawLayers fab w h time n (Suc i) rest c' = (t2, r2, o2)"
      by (cases "drawLayers fab w h time n (Suc i) rest c'") auto
    from Cons.prems d Continue r have "tr = t1 @ t2" "o2 = Continue c" by simp_all
    with Cons.IH[of "Suc i" c' t2 r2] r c1 show ?thesis by (simp add: renderCalls_append)
  next
    case (Return b)
    with Cons.prems d show ?thesis by simp
  next
    case (Throw e)
    with Cons.prems d show ?thesis by simp
  qed
qed




lemma drawLayers_Return:
  "drawLayers fab w h time n i lfs canvas = (tr, lfs', Return b) \<Longrightarrow> n = 1"
proof (induction lfs arbitrary: i canvas tr lfs')
  case Nil
  then show ?case by simp
next
  case (Cons lf rest)
  obtain t1 lf1 o1 where d: "drawLayer fab w h time n i lf canvas = (t1, lf1, o1)"
    by (cases "drawLayer fab w h time n i lf canvas") auto
  show ?case
  proof (cases o1)
    case (Continue c')
    obtain t2 r2 o2 where r: "drawLayers fab w h time n (Suc i) rest c' = (t2, r2, o2)"
      by (cases "drawLayers fab w h time n (Suc i) rest c'") auto
    from Cons.prems d Continue r have "o2 = Return b" by simp
    with Cons.IH r show ?thesis by blast
  next
    case (Return b')
    with d show ?thesis
      by (auto simp: drawLayer_def Let_def split: if_splits sum.splits option.splits prod.splits)
  next
    case (Throw e)
    with Cons.prems d show ?thesis by simp
  qed
qed

lemma drawLayers_single_calls:
  "drawLayers fab w h time n i [lf] canvas = (tr, lfs', out) \<Longrightarrow> renderCalls tr = activeLayers time i [lf]"
proof -
  obtain t1 lf1 o1 where d: "drawLayer fab w h time n i lf canvas = (t1, lf1, o1)"
    by (cases "drawLayer fab w h time n i lf canvas") auto
  assume "drawLayers fab w h time n i [lf] canvas = (tr, lfs', out)"
  with d have "tr = t1" by (cases o1) auto
  with drawLayer_calls[OF d] show ?thesis by simp
qed

lemma readNextFrame_Throw:
  "composeLayers fab eng time = (t, lfs, Throw e) \<Longrightarrow>
   readNextFrame fab eng time lastCanvasObjects =
     (CreateFabricCanvas (width eng) (height eng) # t, eng\<lparr>layerFrameSources := lfs\<rparr>, Inl e)"
  by (simp add: readNextFrame_def)

lemma readNextFrame_Return:
  "composeLayers fab eng time = (t, lfs, Return rgba) \<Longrightarrow>
   readNextFrame fab eng time lastCanvasObjects =
     (CreateFabricCanvas (width eng) (height eng) # t, eng\<lparr>layerFrameSources := lfs\<rparr>,
      Inr (Rgba rgba))"
  by (simp add: readNextFrame_def)

lemma readNextFrame_unchanged:
  "composeLayers fab eng time = (t, lfs, Continue canvas) \<Longrightarrow>
   truthy lastCanvasObjects \<Longrightarrow>
   lastCanvasObjects = Some (JSON_stringify (toJSON fab) (objects canvas)) \<Longrightarrow>
   readNextFrame fab eng time lastCanvasObjects =
     (CreateFabricCanvas (width eng) (height eng) # t @ [JSONStringify, CanvasClear, CanvasDispose],
      eng\<lparr>layerFrameSources := lfs\<rparr>,
      Inr (Tuple None (JSON_stringify (toJSON fab) (objects canvas))))"
  by (simp add: readNextFrame_def Let_def)

lemma readNextFrame_changed:
  "composeLayers fab eng time = (t, lfs, Continue canvas) \<Longrightarrow>
   \<not> (truthy lastCanvasObjects
       \<and> lastCanvasObjects = Some (JSON_stringify (toJSON fab) (objects canvas))) \<Longrightarrow>
   readNextFrame fab eng time lastCanvasObjects =
     (CreateFabricCanvas (width eng) (height eng) # t @ [JSONStringify, RenderFabricCanvas],
      eng\<lparr>layerFrameSources := lfs\<rparr>,
      Inr (Tuple (Some (renderFabricCanvas fab canvas))
             (JSON_stringify (toJSON fab) (objects canvas))))"
  by (auto simp add: readNextFrame_def Let_def)

lemma readNextFrame_trace:
  assumes r: "readNextFrame fab eng time lastCanvasObjects = (tr, eng', res)"
    and c: "composeLayers fab eng time = (t, lfs, out)"
  shows "renderCalls tr = renderCalls t" and "(\<exists>e. res = Inl e) \<longleftrightarrow> (\<exists>e. out = Throw e)"
proof -
  have "renderCalls tr = renderCalls t \<and> ((\<exists>e. res = Inl e) \<longleftrightarrow> (\<exists>e. out = Throw e))"
  proof (cases out)
    case (Continue canvas)
    note c' = c[unfolded Continue]
    show ?thesis
    proof (cases "truthy lastCanvasObjects
        \<and> lastCanvasObjects = Some (JSON_stringify (toJSON fab) (objects canvas))")
      case True
      then have "readNextFrame fab eng time lastCanvasObjects =
        (CreateFabricCanvas (width eng) (height eng) # t @ [JSONStringify, CanvasClear, CanvasDispose],
         eng\<lparr>layerFrameSources := lfs\<rparr>,
         Inr (Tuple None (JSON_stringify (toJSON fab) (objects canvas))))"
        using readNextFrame_unchanged[OF c'] by blast
      with r have "tr = CreateFabricCanvas (width eng) (height eng) # t
            @ [JSONStringify, CanvasClear, CanvasDispose]"
        and "res = Inr (Tuple None (JSON_stringify (toJSON fab) (objects canvas)))"
        by simp_all
      with Continue show ?thesis by (simp add: renderCalls_append)
    next
      case False
      from readNextFrame_changed[OF c' False] r
      have "tr = CreateFabricCanvas (width eng) (height eng) # t
            @ [JSONStringify, RenderFabricCanvas]"
        and "res = Inr (Tuple (Some (renderFabricCanvas fab canvas))
             (JSON_stringify (toJSON fab) (objects canvas)))"
        by simp_all
      with Continue show ?thesis by (simp add: renderCalls_append)
    qed
  next
    case (Return b)
    from readNextFrame_Return[OF c[unfolded Return]] r
    have "tr = CreateFabricCanvas (width eng) (height eng) # t" and "res = Inr (Rgba b)"
      by simp_all
    with Return show ?thesis by simp
  next
    case (Throw e)
    from readNextFrame_Throw[OF c[unfolded Throw]] r
    have "tr = CreateFabricCanvas (width eng) (height eng) # t" and "res = Inl e"
      by simp_all
    with Throw show ?thesis by simp
  qed
  then show "renderCalls tr = renderCalls t" and "(\<exists>e. res = Inl e) \<longleftrightarrow> (\<exists>e. out = Throw e)"
    by simp_all
qed


lemma readNextFrame_calls:
  assumes "readNextFrame fab eng time lastCanvasObjects = (tr, eng', res)"
    and "\<forall>e. res \<noteq> Inl e"
  shows "renderCalls tr = activeLayers time 0 (layerFrameSources eng)"
proof -
  obtain t lfs out where c: "composeLayers fab eng time = (t, lfs, out)"
    by (cases "composeLayers fab eng time") auto
  note r = readNextFrame_trace(1)[OF assms(1) c]
  note e = readNextFrame_trace(2)[OF assms(1) c]
  show ?thesis
  proof (cases out)
    case (Continue cv)
    from c[unfolded Continue composeLayers_def] show ?thesis
      unfolding r by (rule drawLayers_calls_Continue)
  next
    case (Return b)
    from c[unfolded Return composeLayers_def] have "length (layerFrameSources eng) = 1"
      by (rule drawLayers_Return)
    then obtain lf where lf: "layerFrameSources eng = [lf]"
      by (cases "layerFrameSources eng") auto
    from c[unfolded composeLayers_def lf]
    have "renderCalls t = activeLayers time 0 [lf]"
      by (rule drawLayers_single_calls)
    with lf r show ?thesis by simp
  next
    case (Throw x)
    with e assms(2) show ?thesis by blast
  qed
qed

section \<open>Claims about the activity of a layer\<close>


lemmas ex_defs = readNextFrame_def composeLayers_def drawLayer_def shouldDrawLayer_def offsetProgress_def
  js_divide_def createFabricCanvas_def canvas_add_def JSON_stringify_def
  exampleFabric_def bufferSource_def exampleLayer_def twoLayers_def oneLayer_def
  paintCanvas_def pixels_def pixelColour_def paintObject_def Let_def numeral_2_eq_2








section \<open>Claims about the fast path and the cache\<close>

lemma composeLayers_single_buffer:
  assumes "layerFrameSources eng = [lf]"
    and "shouldDrawLayer time (layer lf)"
    and "frameSource_readNextFrame (frameSource lf) (state (frameSource lf))
           (offsetProgress time (layer lf)) (createFabricCanvas (width eng) (height eng))
         = Inr (Some rgba, canvas', s')"
  shows "composeLayers fab eng time =
     ([FrameSourceReadNextFrame 0 (offsetProgress time (layer lf))],
      [lf\<lparr>frameSource := (frameSource lf)\<lparr>state := s'\<rparr>\<rparr>], Return rgba)"
  using assms by (simp add: composeLayers_def drawLayer_def)

text \<open>
  C1, as amended: for every requested frame of an engine that holds exactly one frame
  source, if its layer is active and its render returns a raw buffer, \<open>readNextFrame\<close>
  returns that buffer unmodified and bare (no cache key with it); the only calls made
  are the creation of the canvas and the render, so nothing is added to the canvas, the
  canvas is not rasterised and no cache key is computed or compared.
\<close>

theorem single_layer_buffer_returned_unmodified:
  assumes "layerFrameSources eng = [lf]"
    and "shouldDrawLayer time (layer lf)"
    and "frameSource_readNextFrame (frameSource lf) (state (frameSource lf))
           (offsetProgress time (layer lf)) (createFabricCanvas (width eng) (height eng))
         = Inr (Some rgba, canvas', s')"
  shows "readNextFrame fab eng time lastCanvasObjects =
     ([CreateFabricCanvas (width eng) (height eng),
       FrameSourceReadNextFrame 0 (offsetProgress time (layer lf))],
      eng\<lparr>layerFrameSources := [lf\<lparr>frameSource := (frameSource lf)\<lparr>state := s'\<rparr>\<rparr>]\<rparr>,
      Inr (Rgba rgba))
    \<and> RenderFabricCanvas \<notin> set (fst (readNextFrame fab eng time lastCanvasObjects))
    \<and> JSONStringify \<notin> set (fst (readNextFrame fab eng time lastCanvasObjects))"
  using readNextFrame_Return[OF composeLayers_single_buffer[OF assms]] by simp

theorem single_layer_buffer_returned_unmodified_witness:
  "layerFrameSources (oneLayer 0 10) =
     [\<lparr>layer = exampleLayer ''video'' 0 10 (),
       frameSource = bufferSource [Some ''red'', Some ''red'']\<rparr>]
   \<and> shouldDrawLayer 5 (exampleLayer ''video'' 0 10 ())
   \<and> readNextFrame exampleFabric (oneLayer 0 10) 5 (Some ''[]'') =
       ([CreateFabricCanvas 2 1, FrameSourceReadNextFrame 0 (Finite (1 / 2))],
        oneLayer 0 10, Inr (Rgba [Some ''red'', Some ''red'']))"
proof -
  let ?lf = "\<lparr>layer = exampleLayer ''video'' 0 10 (),
       frameSource = bufferSource [Some ''red'', Some ''red'']\<rparr>
     :: (unit, unit, fabricObject, string option list) layerFrameSource"
  have a: "layerFrameSources (oneLayer 0 10) = [?lf]"
    by (simp add: oneLayer_def)
  have b: "shouldDrawLayer 5 (layer ?lf)"
    by (simp add: shouldDrawLayer_def offsetProgress_def js_divide_def exampleLayer_def)
  have c: "frameSource_readNextFrame (frameSource ?lf) (state (frameSource ?lf))
      (offsetProgress 5 (layer ?lf))
      (createFabricCanvas (width (oneLayer 0 10)) (height (oneLayer 0 10)))
    = Inr (Some [Some ''red'', Some ''red''],
           createFabricCanvas (width (oneLayer 0 10)) (height (oneLayer 0 10)), ())"
    by (simp add: bufferSource_def)
  have o: "offsetProgress 5 (exampleLayer ''video'' 0 10 ()) = Finite (1 / 2)"
    by (simp add: offsetProgress_def js_divide_def exampleLayer_def)
  from single_layer_buffer_returned_unmodified[OF a b c, of exampleFabric "Some ''[]''"] a b o
  show ?thesis by (simp add: oneLayer_def bufferSource_def)
qed

lemma twoLayers_at_1:
  "readNextFrame exampleFabric twoLayers 1 None =
     ([CreateFabricCanvas 2 1,
       FrameSourceReadNextFrame 0 (Finite (1 / 10)),
       RgbaToFabricImage [Some ''red'', Some ''red''],
       CanvasAdd (ImageObject 2 1 [Some ''red'', Some ''red'']),
       JSONStringify, RenderFabricCanvas],
      twoLayers,
      Inr (Tuple (Some [Some ''red'', Some ''red'']) ''[{image:redred}]''))"
  by (simp add: ex_defs)

theorem single_layer_buffer_returned_unmodified_counterexample:
  "activeLayers 1 0 (layerFrameSources twoLayers) = [(0, Finite (1 / 10))]
   \<and> frameSource_readNextFrame (frameSource (layerFrameSources twoLayers ! 0)) ()
        (Finite (1 / 10)) (createFabricCanvas 2 1)
      = Inr (Some [Some ''red'', Some ''red''], createFabricCanvas 2 1, ())
   \<and> snd (snd (readNextFrame exampleFabric twoLayers 1 None))
      = Inr (Tuple (Some [Some ''red'', Some ''red'']) ''[{image:redred}]'')
   \<and> snd (snd (readNextFrame exampleFabric twoLayers 1 None)) \<noteq> Inr (Rgba [Some ''red'', Some ''red''])
   \<and> RenderFabricCanvas \<in> set (fst (readNextFrame exampleFabric twoLayers 1 None))
   \<and> JSONStringify \<in> set (fst (readNextFrame exampleFabric twoLayers 1 None))"
  unfolding twoLayers_at_1
  by (simp add: twoLayers_def bufferSource_def exampleLayer_def shouldDrawLayer_def
      offsetProgress_def js_divide_def)








section \<open>Claims about the fill-colour source and repeated runs\<close>


lemma fillColorFrameSource_eq:
  "fillColorFrameSource fab getRandomColor opts world =
     (\<lparr>onRender = (\<lambda>progress canvas. canvas_add canvas
          (Rect fab \<lparr>left = 0, right = 0, rect_width = opts_width opts,
                     rect_height = opts_height opts,
                     fill = js_or (color (opts_params opts)) (fst (getRandomColor world))\<rparr>))\<rparr>,
      snd (getRandomColor world))"
  by (simp add: fillColorFrameSource_def Let_def split: prod.splits)

text \<open>
  C10, as amended: a fill-colour frame source reads the random generator once, at
  construction, and every render call of that source adds the same full-frame rectangle
  (left 0, the frame's width and height) whatever the progress value, so that the frames
  it draws serialise to the same cache key. The rectangle's fill is the given colour
  parameter whenever that is a non-empty string, and the fallback colour chosen at
  construction when no colour or the empty string is given.
\<close>

theorem fill_color_same_rectangle_every_render:
  assumes "fillColorFrameSource fab getRandomColor opts world = (h, world')"
    and "f = js_or (color (opts_params opts)) (fst (getRandomColor world))"
  shows
    "world' = snd (getRandomColor world)
     \<and> (\<forall>progress canvas. onRender h progress canvas =
            canvas_add canvas (Rect fab \<lparr>left = 0, right = 0, rect_width = opts_width opts,
                                         rect_height = opts_height opts, fill = f\<rparr>))
     \<and> (\<forall>p1 p2 canvas. onRender h p1 canvas = onRender h p2 canvas
            \<and> JSON_stringify (toJSON fab) (objects (onRender h p1 canvas))
              = JSON_stringify (toJSON fab) (objects (onRender h p2 canvas)))
     \<and> (\<forall>c. color (opts_params opts) = Some c \<and> c \<noteq> [] \<longrightarrow> f = c)
     \<and> (color (opts_params opts) = None \<or> color (opts_params opts) = Some []
          \<longrightarrow> f = fst (getRandomColor world))"
proof -
  from assms(1) have w: "world' = snd (getRandomColor world)"
    and h: "h = \<lparr>onRender = (\<lambda>progress canvas. canvas_add canvas
          (Rect fab \<lparr>left = 0, right = 0, rect_width = opts_width opts,
                     rect_height = opts_height opts,
                     fill = js_or (color (opts_params opts)) (fst (getRandomColor world))\<rparr>))\<rparr>"
    by (simp_all add: fillColorFrameSource_eq)
  have r: "\<forall>progress canvas. onRender h progress canvas =
            canvas_add canvas (Rect fab \<lparr>left = 0, right = 0, rect_width = opts_width opts,
                                         rect_height = opts_height opts, fill = f\<rparr>)"
    by (simp add: h assms(2))
  have s: "\<forall>p1 p2 canvas. onRender h p1 canvas = onRender h p2 canvas
            \<and> JSON_stringify (toJSON fab) (objects (onRender h p1 canvas))
              = JSON_stringify (toJSON fab) (objects (onRender h p2 canvas))"
    by (simp add: h)
  have g: "\<forall>c. color (opts_params opts) = Some c \<and> c \<noteq> [] \<longrightarrow> f = c"
    by (simp add: assms(2) js_or_def)
  have n: "color (opts_params opts) = None \<or> color (opts_params opts) = Some []
          \<longrightarrow> f = fst (getRandomColor world)"
    by (auto simp add: assms(2) js_or_def)
  show ?thesis by (rule conjI[OF w conjI[OF r conjI[OF s conjI[OF g n]]]])
qed

theorem fill_color_same_rectangle_every_render_witness:
  "color (opts_params (exampleOpts (Some ''#ff0000''))) = Some ''#ff0000''
   \<and> ''#ff0000'' \<noteq> []
   \<and> onRender (fst (fillColorFrameSource exampleFabric nextColor (exampleOpts (Some ''#ff0000''))
                       [''red'', ''blue'']))
        (Finite (1 / 2)) (createFabricCanvas 2 1)
      = \<lparr>canvas_width = 2, canvas_height = 1,
         objects = [RectObject \<lparr>left = 0, right = 0, rect_width = 2, rect_height = 1,
                                fill = ''#ff0000''\<rparr>]\<rparr>
   \<and> snd (fillColorFrameSource exampleFabric nextColor (exampleOpts (Some ''#ff0000''))
             [''red'', ''blue'']) = [''blue'']"
proof -
  let ?o = "exampleOpts (Some ''#ff0000'')"
  let ?r = "fillColorFrameSource exampleFabric nextColor ?o [''red'', ''blue'']"
  have a: "?r = (fst ?r, snd ?r)" by simp
  have c: "color (opts_params ?o) = Some ''#ff0000'' \<and> ''#ff0000'' \<noteq> []"
    by (simp add: exampleOpts_def)
  note t = fill_color_same_rectangle_every_render[OF a refl]
  note f = t[THEN conjunct2, THEN conjunct2, THEN conjunct2, THEN conjunct1, rule_format, OF c]
  note w = t[THEN conjunct1]
  note r = t[THEN conjunct2, THEN conjunct1, rule_format, of "Finite (1 / 2)" "createFabricCanvas 2 1"]
  from c w r[unfolded f] show ?thesis
    by (simp add: exampleOpts_def exampleFabric_def canvas_add_def createFabricCanvas_def)
qed

theorem fill_color_same_rectangle_every_render_counterexample:
  "color (opts_params (exampleOpts (Some ''''))) = Some ''''
   \<and> onRender (fst (fillColorFrameSource exampleFabric nextColor (exampleOpts (Some ''''))
                       [''red'', ''blue'']))
        (Finite (1 / 2)) (createFabricCanvas 2 1)
      = \<lparr>canvas_width = 2, canvas_height = 1,
         objects = [RectObject \<lparr>left = 0, right = 0, rect_width = 2, rect_height = 1,
                                fill = ''red''\<rparr>]\<rparr>
   \<and> ''red'' \<noteq> ''''"
  by (simp add: fillColorFrameSource_eq exampleOpts_def exampleFabric_def canvas_add_def
      createFabricCanvas_def js_or_def)










section \<open>Claims about construction\<close>









lemma mapper_invalid_type:
  assumes "getProperty fabricFrameSources (type l) = Undefined"
    and "getProperty otherFrameSources (type l) = Undefined"
  shows "mapper call w h dur channels l i world =
     ([], Inl (AssertionError (''Invalid type '' @ type l)), world)"
  using assms by (simp add: mapper_def selectCreateFrameSourceFunc_def)

lemma pMap1_rejects:
  assumes "l \<in> set ls"
    and "\<And>i world. \<exists>tr e world'. f l i world = (tr, Inl e, world')"
  shows "\<exists>e. fst (snd (pMap1 f i ls world)) = Inl e"
  using assms(1)
proof (induction ls arbitrary: i world)
  case Nil
  then show ?case by simp
next
  case (Cons x xs)
  obtain t1 r1 w1 where m: "f x i world = (t1, r1, w1)"
    by (cases "f x i world") auto
  show ?case
  proof (cases r1)
    case (Inl e)
    with m show ?thesis by simp
  next
    case (Inr r)
    with m assms(2)[of i world] have "x \<noteq> l" by auto
    with Cons.prems have "l \<in> set xs" by simp
    from Cons.IH[OF this, of "Suc i" w1] obtain e
      where e: "fst (snd (pMap1 f (Suc i) xs w1)) = Inl e" by blast
    obtain t2 r2 w2 where p: "pMap1 f (Suc i) xs w1 = (t2, r2, w2)"
      by (cases "pMap1 f (Suc i) xs w1") auto
    with e have "r2 = Inl e" by simp
    with m Inr p show ?thesis by simp
  qed
qed

lemma createFrameSource_rejects_unknown_type:
  assumes "l \<in> set (visualLayers c)"
    and "getProperty fabricFrameSources (type l) = Undefined"
    and "getProperty otherFrameSources (type l) = Undefined"
  shows "\<exists>e. fst (snd (createFrameSource call c w h channels world)) = Inl e"
proof -
  have "\<exists>e. fst (snd (pMap1 (mapper call w h (duration c) channels) 0 (visualLayers c) world))
      = Inl e"
    using assms(1) by (rule pMap1_rejects) (simp add: mapper_invalid_type[OF assms(2,3)])
  then obtain e t w' where
    "pMap1 (mapper call w h (duration c) channels) 0 (visualLayers c) world = (t, Inl e, w')"
    by (cases "pMap1 (mapper call w h (duration c) channels) 0 (visualLayers c) world") auto
  then show ?thesis by (simp add: createFrameSource_def)
qed

text \<open>
  C6, at the failing input: a layer whose type is \<^verbatim>\<open>constructor\<close>, which is a key of neither
  table. The property read finds \<^verbatim>\<open>Object.prototype.constructor\<close>, the value is truthy, the
  assertion passes, and construction goes on to call \<^verbatim>\<open>createFabricFrameSource\<close> with it:
  whatever that returns is the layer's outcome, and no "Invalid type" error is raised.
\<close>

theorem inherited_type_passes_the_assertion:
  "map_of fabricFrameSources ''constructor'' = None
   \<and> map_of otherFrameSources ''constructor'' = None
   \<and> selectCreateFrameSourceFunc ''constructor''
       = ViaCreateFabricFrameSource (Inherited ''constructor'')
   \<and> mapper call w h dur channels
        \<lparr>type = ''constructor'', start = st, layerDuration = ld, params = p\<rparr> i world
      = (case call (ViaCreateFabricFrameSource (Inherited ''constructor''))
                \<lparr>opts_width = w, opts_height = h, opts_duration = dur,
                 opts_channels = channels, opts_params = p\<rparr> world of
           (Inl e, world') \<Rightarrow> ([CreateFrameSourceFunc i ''constructor''], Inl e, world')
         | (Inr fs, world') \<Rightarrow>
             ([CreateFrameSourceFunc i ''constructor'', FrameSourceCreated i],
              Inr \<lparr>layer = \<lparr>type = ''constructor'', start = st, layerDuration = ld,
                              params = p\<rparr>,
                   frameSource = fs\<rparr>,
              world'))"
  by (simp add: mapper_def selectCreateFrameSourceFunc_def getProperty_def
      fabricFrameSources_def otherFrameSources_def Object_prototype_def
      split: prod.splits sum.splits)

section \<open>Claims about the order of compositing\<close>

lemma drawLayers_append:
  "drawLayers fab w h time n i (xs @ ys) canvas =
     (case drawLayers fab w h time n i xs canvas of
        (t1, xs', Continue c1) \<Rightarrow>
          (case drawLayers fab w h time n (i + length xs) ys c1 of
             (t2, ys', out) \<Rightarrow> (t1 @ t2, xs' @ ys', out))
      | (t1, xs', Return b) \<Rightarrow> (t1, xs' @ ys, Return b)
      | (t1, xs', Throw e) \<Rightarrow> (t1, xs' @ ys, Throw e))"
proof (induction xs arbitrary: i canvas)
  case Nil
  then show ?case by (simp split: prod.splits)
next
  case (Cons x xs)
  obtain t lf' out where d: "drawLayer fab w h time n i x canvas = (t, lf', out)"
    by (cases "drawLayer fab w h time n i x canvas") auto
  show ?case
  proof (cases out)
    case (Continue c')
    with d Cons.IH[of "Suc i" c'] show ?thesis
      by (simp split: prod.splits outcome.splits)
  next
    case (Return b)
    with d show ?thesis by simp
  next
    case (Throw e)
    with d show ?thesis by simp
  qed
qed

lemma drawLayers_prefix_Continue:
  assumes "drawLayers fab w h time n i (xs @ ys) canvas = (tr, lfs', Continue cf)"
  shows "\<exists>t l c. drawLayers fab w h time n i xs canvas = (t, l, Continue c)"
proof -
  obtain t l out where x: "drawLayers fab w h time n i xs canvas = (t, l, out)"
    by (cases "drawLayers fab w h time n i xs canvas") auto
  with assms show ?thesis
    by (cases out) (simp_all add: drawLayers_append)
qed

lemma drawLayers_snoc:
  assumes "drawLayers fab w h time n 0 xs canvas = (t, l, Continue c)"
    and "drawLayers fab w h time n 0 (xs @ [x]) canvas = (t', l', Continue c')"
  shows "\<exists>t1 lf1. drawLayer fab w h time n (length xs) x c = (t1, lf1, Continue c')"
proof -
  obtain t1 lf1 out where d: "drawLayer fab w h time n (length xs) x c = (t1, lf1, out)"
    by (cases "drawLayer fab w h time n (length xs) x c") auto
  with assms show ?thesis
    by (cases out) (simp_all add: drawLayers_append)
qed

lemma drawLayer_Continue:
  assumes "drawLayer fab w h time n i lf c = (tr, lf', Continue c')"
  shows "if shouldDrawLayer time (layer lf)
         then \<exists>r c1 s1.
                frameSource_readNextFrame (frameSource lf) (state (frameSource lf))
                  (offsetProgress time (layer lf)) c = Inr (r, c1, s1)
              \<and> c' = (case r of None \<Rightarrow> c1
                       | Some buf \<Rightarrow> canvas_add c1 (rgbaToFabricImage fab w h buf))
         else c' = c"
  using assms
  by (auto simp: drawLayer_def Let_def split: if_splits sum.splits option.splits prod.splits)

lemma drawLayer_grows:
  assumes "drawLayer fab w h time n i lf c = (tr, lf', Continue c')"
    and "appendOnly (frameSource lf)"
  shows "prefix (objects c) (objects c')"
proof (cases "shouldDrawLayer time (layer lf)")
  case True
  with drawLayer_Continue[OF assms(1)] obtain r c1 s1 where
    f: "frameSource_readNextFrame (frameSource lf) (state (frameSource lf))
          (offsetProgress time (layer lf)) c = Inr (r, c1, s1)"
    and c': "c' = (case r of None \<Rightarrow> c1
                   | Some buf \<Rightarrow> canvas_add c1 (rgbaToFabricImage fab w h buf))"
    by auto
  from assms(2) f have "prefix (objects c) (objects c1)"
    unfolding appendOnly_def by blast
  moreover have "prefix (objects c1) (objects c')"
    by (simp add: c' canvas_add_def split: option.splits)
  ultimately show ?thesis by (rule prefix_order.trans)
next
  case False
  with drawLayer_Continue[OF assms(1)] show ?thesis by simp
qed

lemma canvasAt_final:
  assumes "composeLayers fab eng time = (t, l, Continue cf)"
  shows "canvasAt fab eng time (length (layerFrameSources eng)) = Some cf"
  using assms by (simp add: canvasAt_def composeLayers_def)

lemma canvasAt_defined:
  assumes "composeLayers fab eng time = (t, l, Continue cf)"
  shows "\<exists>c. canvasAt fab eng time k = Some c"
proof -
  have "layerFrameSources eng = take k (layerFrameSources eng) @ drop k (layerFrameSources eng)"
    by simp
  with assms have "drawLayers fab (width eng) (height eng) time (length (layerFrameSources eng)) 0
      (take k (layerFrameSources eng) @ drop k (layerFrameSources eng))
      (createFabricCanvas (width eng) (height eng)) = (t, l, Continue cf)"
    by (simp add: composeLayers_def)
  from drawLayers_prefix_Continue[OF this] show ?thesis
    by (auto simp: canvasAt_def)
qed

lemma canvasAt_step:
  fixes eng :: "('p, 's, 'o, 'b) engine"
  assumes "k < length (layerFrameSources eng)"
    and "canvasAt fab eng time k = Some c"
    and "canvasAt fab eng time (Suc k) = Some c'"
  shows "\<exists>t1 lf1. drawLayer fab (width eng) (height eng) time (length (layerFrameSources eng)) k
           (layerFrameSources eng ! k) c = (t1, lf1, Continue c')"
proof -
  let ?d = "drawLayers fab (width eng) (height eng) time (length (layerFrameSources eng)) 0"
  let ?c0 = "createFabricCanvas (width eng) (height eng) :: 'o canvas"
  obtain t l where a: "?d (take k (layerFrameSources eng)) ?c0 = (t, l, Continue c)"
    using assms(2)
    by (cases "?d (take k (layerFrameSources eng)) ?c0")
       (auto simp: canvasAt_def split: outcome.splits)
  have tk: "take (Suc k) (layerFrameSources eng)
      = take k (layerFrameSources eng) @ [layerFrameSources eng ! k]"
    using assms(1) by (rule take_Suc_conv_app_nth)
  obtain t' l' where b: "?d (take k (layerFrameSources eng) @ [layerFrameSources eng ! k]) ?c0
      = (t', l', Continue c')"
    using assms(3) unfolding canvasAt_def tk
    by (cases "?d (take k (layerFrameSources eng) @ [layerFrameSources eng ! k]) ?c0")
       (auto split: outcome.splits)
  from drawLayers_snoc[OF a b] assms(1) show ?thesis by simp
qed

lemma canvasAt_grows_Suc:
  assumes "\<forall>lf \<in> set (layerFrameSources eng). appendOnly (frameSource lf)"
    and "k < length (layerFrameSources eng)"
    and "canvasAt fab eng time k = Some c"
    and "canvasAt fab eng time (Suc k) = Some c'"
  shows "prefix (objects c) (objects c')"
proof -
  from canvasAt_step[OF assms(2,3,4)] obtain t1 lf1 where
    "drawLayer fab (width eng) (height eng) time (length (layerFrameSources eng)) k
       (layerFrameSources eng ! k) c = (t1, lf1, Continue c')"
    by blast
  moreover from assms(1,2) have "appendOnly (frameSource (layerFrameSources eng ! k))"
    by simp
  ultimately show ?thesis by (rule drawLayer_grows)
qed

lemma canvasAt_grows:
  assumes "\<forall>lf \<in> set (layerFrameSources eng). appendOnly (frameSource lf)"
    and "composeLayers fab eng time = (t, l, Continue cf)"
    and "k \<le> m" and "m \<le> length (layerFrameSources eng)"
    and "canvasAt fab eng time k = Some c"
    and "canvasAt fab eng time m = Some c'"
  shows "prefix (objects c) (objects c')"
  using assms(3,4,6)
proof (induction m arbitrary: c')
  case 0
  with assms(5) show ?case by simp
next
  case (Suc m)
  show ?case
  proof (cases "k = Suc m")
    case True
    with Suc.prems assms(5) show ?thesis by simp
  next
    case False
    with Suc.prems have km: "k \<le> m" and m: "m < length (layerFrameSources eng)" by simp_all
    from canvasAt_defined[OF assms(2)] obtain cm where cm: "canvasAt fab eng time m = Some cm"
      by blast
    from Suc.IH[OF km _ cm] m have "prefix (objects c) (objects cm)" by simp
    moreover from canvasAt_grows_Suc[OF assms(1) m cm Suc.prems(3)]
    have "prefix (objects cm) (objects c')" .
    ultimately show ?thesis by (rule prefix_order.trans)
  qed
qed

lemma paintObject_covered:
  assumes "\<exists>obj \<in> set ys. paint obj px \<noteq> None"
  shows "foldl (paintObject paint px) acc ys = foldl (paintObject paint px) acc' ys"
  using assms
proof (induction ys arbitrary: acc acc')
  case Nil
  then show ?case by simp
next
  case (Cons y ys)
  show ?case
  proof (cases "\<exists>obj \<in> set ys. paint obj px \<noteq> None")
    case True
    from Cons.IH[OF this] show ?thesis by simp
  next
    case False
    with Cons.prems have "paint y px \<noteq> None" by auto
    then have "paintObject paint px acc y = paintObject paint px acc' y"
      by (auto simp: paintObject_def)
    then show ?thesis by simp
  qed
qed

lemma pixelColour_covered:
  assumes "\<exists>obj \<in> set ys. paint obj px \<noteq> None"
  shows "pixelColour paint (xs @ ys) px = pixelColour paint ys px"
  unfolding pixelColour_def foldl_append using assms by (rule paintObject_covered)

lemma readNextFrame_Tuple:
  assumes "readNextFrame fab eng time lastCanvasObjects = (tr, eng', Inr (Tuple r key))"
  shows "\<exists>t l cf. composeLayers fab eng time = (t, l, Continue cf)
      \<and> key = JSON_stringify (toJSON fab) (objects cf)
      \<and> (r = None \<or> r = Some (renderFabricCanvas fab cf))"
proof -
  obtain t l out where c: "composeLayers fab eng time = (t, l, out)"
    by (cases "composeLayers fab eng time") auto
  show ?thesis
  proof (cases out)
    case (Continue cf)
    note c' = c[unfolded Continue]
    show ?thesis
    proof (cases "truthy lastCanvasObjects
        \<and> lastCanvasObjects = Some (JSON_stringify (toJSON fab) (objects cf))")
      case True
      then have "readNextFrame fab eng time lastCanvasObjects =
        (CreateFabricCanvas (width eng) (height eng) # t @ [JSONStringify, CanvasClear, CanvasDispose],
         eng\<lparr>layerFrameSources := l\<rparr>,
         Inr (Tuple None (JSON_stringify (toJSON fab) (objects cf))))"
        using readNextFrame_unchanged[OF c'] by blast
      with assms c' show ?thesis by simp
    next
      case False
      from readNextFrame_changed[OF c' False] assms c' show ?thesis by simp
    qed
  next
    case (Return b)
    from readNextFrame_Return[OF c[unfolded Return]] assms show ?thesis by simp
  next
    case (Throw e)
    from readNextFrame_Throw[OF c[unfolded Throw]] assms show ?thesis by simp
  qed
qed

text \<open>
  C8: in a frame that is composed on the canvas, the frame sources of the active layers
  are called in the order the clip declares the layers, each with its offset progress.
  Layer after layer, the canvas goes from one frame source to the next: a render that
  returns a buffer has the buffer wrapped as an image object and added to the canvas it
  left, a render that returns nothing leaves the canvas as the next layer gets it. When
  the frame sources only add to the canvas, the objects of a layer A declared before a
  layer B therefore stand before B's in the final object list, which is what the cache
  key serialises and the rasteriser paints; and with a rasteriser that paints the list in
  order (first = bottom), at every pixel where an object of B draws the colour is the
  one B's objects and those above give, whatever A drew there.
\<close>

theorem layers_composited_in_declared_order:
  fixes eng :: "('p, 's, 'o, 'c option list) engine"
  assumes "readNextFrame fab eng time lastCanvasObjects = (tr, eng', Inr (Tuple r key))"
    and "\<forall>lf \<in> set (layerFrameSources eng). appendOnly (frameSource lf)"
    and "renderFabricCanvas fab = paintCanvas paint"
  shows
    "renderCalls tr = activeLayers time 0 (layerFrameSources eng)
     \<and> (\<forall>k < length (layerFrameSources eng). \<exists>c c'.
           canvasAt fab eng time k = Some c \<and> canvasAt fab eng time (Suc k) = Some c'
         \<and> (if shouldDrawLayer time (layer (layerFrameSources eng ! k))
            then \<exists>rgba c1 s1.
                   frameSource_readNextFrame (frameSource (layerFrameSources eng ! k))
                     (state (frameSource (layerFrameSources eng ! k)))
                     (offsetProgress time (layer (layerFrameSources eng ! k))) c
                   = Inr (rgba, c1, s1)
                 \<and> c' = (case rgba of None \<Rightarrow> c1
                          | Some buf \<Rightarrow>
                              canvas_add c1 (rgbaToFabricImage fab (width eng) (height eng) buf))
            else c' = c))
     \<and> (\<forall>i j. i < j \<and> j < length (layerFrameSources eng) \<longrightarrow>
          (\<exists>below a mid b above cf.
              (\<exists>ci. canvasAt fab eng time i = Some ci \<and> objects ci = below)
            \<and> (\<exists>ci'. canvasAt fab eng time (Suc i) = Some ci' \<and> objects ci' = below @ a)
            \<and> (\<exists>cj. canvasAt fab eng time j = Some cj \<and> objects cj = below @ a @ mid)
            \<and> (\<exists>cj'. canvasAt fab eng time (Suc j) = Some cj'
                  \<and> objects cj' = below @ a @ mid @ b)
            \<and> canvasAt fab eng time (length (layerFrameSources eng)) = Some cf
            \<and> objects cf = below @ a @ mid @ b @ above
            \<and> key = JSON_stringify (toJSON fab) (objects cf)
            \<and> (r = None \<or> r = Some (paintCanvas paint cf))
            \<and> (\<forall>px. (\<exists>obj \<in> set b. paint obj px \<noteq> None) \<longrightarrow>
                  pixelColour paint (objects cf) px = pixelColour paint (b @ above) px)))"
proof -
  let ?lfs = "layerFrameSources eng"
  from readNextFrame_Tuple[OF assms(1)] obtain t l cf where
    c: "composeLayers fab eng time = (t, l, Continue cf)"
    and key: "key = JSON_stringify (toJSON fab) (objects cf)"
    and r: "r = None \<or> r = Some (renderFabricCanvas fab cf)"
    by blast
  note final = canvasAt_final[OF c]
  have order: "renderCalls tr = activeLayers time 0 ?lfs"
    by (rule readNextFrame_calls[OF assms(1)]) simp
  have steps: "\<forall>k < length ?lfs. \<exists>c c'.
           canvasAt fab eng time k = Some c \<and> canvasAt fab eng time (Suc k) = Some c'
         \<and> (if shouldDrawLayer time (layer (?lfs ! k))
            then \<exists>rgba c1 s1.
                   frameSource_readNextFrame (frameSource (?lfs ! k))
                     (state (frameSource (?lfs ! k)))
                     (offsetProgress time (layer (?lfs ! k))) c
                   = Inr (rgba, c1, s1)
                 \<and> c' = (case rgba of None \<Rightarrow> c1
                          | Some buf \<Rightarrow>
                              canvas_add c1 (rgbaToFabricImage fab (width eng) (height eng) buf))
            else c' = c)"
  proof (intro allI impI)
    fix k
    assume k: "k < length ?lfs"
    from canvasAt_defined[OF c, of k] canvasAt_defined[OF c, of "Suc k"] obtain ck ck' where
      ck: "canvasAt fab eng time k = Some ck" and ck': "canvasAt fab eng time (Suc k) = Some ck'"
      by blast
    from canvasAt_step[OF k ck ck'] obtain t1 lf1 where
      "drawLayer fab (width eng) (height eng) time (length ?lfs) k (?lfs ! k) ck
         = (t1, lf1, Continue ck')"
      by blast
    from drawLayer_Continue[OF this] ck ck'
    show "\<exists>c c'.
           canvasAt fab eng time k = Some c \<and> canvasAt fab eng time (Suc k) = Some c'
         \<and> (if shouldDrawLayer time (layer (?lfs ! k))
            then \<exists>rgba c1 s1.
                   frameSource_readNextFrame (frameSource (?lfs ! k))
                     (state (frameSource (?lfs ! k)))
                     (offsetProgress time (layer (?lfs ! k))) c
                   = Inr (rgba, c1, s1)
                 \<and> c' = (case rgba of None \<Rightarrow> c1
                          | Some buf \<Rightarrow>
                              canvas_add c1 (rgbaToFabricImage fab (width eng) (height eng) buf))
            else c' = c)"
      by blast
  qed
  have zorder: "\<forall>i j. i < j \<and> j < length ?lfs \<longrightarrow>
          (\<exists>below a mid b above cf.
              (\<exists>ci. canvasAt fab eng time i = Some ci \<and> objects ci = below)
            \<and> (\<exists>ci'. canvasAt fab eng time (Suc i) = Some ci' \<and> objects ci' = below @ a)
            \<and> (\<exists>cj. canvasAt fab eng time j = Some cj \<and> objects cj = below @ a @ mid)
            \<and> (\<exists>cj'. canvasAt fab eng time (Suc j) = Some cj'
                  \<and> objects cj' = below @ a @ mid @ b)
            \<and> canvasAt fab eng time (length ?lfs) = Some cf
            \<and> objects cf = below @ a @ mid @ b @ above
            \<and> key = JSON_stringify (toJSON fab) (objects cf)
            \<and> (r = None \<or> r = Some (paintCanvas paint cf))
            \<and> (\<forall>px. (\<exists>obj \<in> set b. paint obj px \<noteq> None) \<longrightarrow>
                  pixelColour paint (objects cf) px = pixelColour paint (b @ above) px))"
  proof (intro allI impI)
    fix i j
    assume ij: "i < j \<and> j < length ?lfs"
    from canvasAt_defined[OF c, of i] canvasAt_defined[OF c, of "Suc i"]
      canvasAt_defined[OF c, of j] canvasAt_defined[OF c, of "Suc j"]
    obtain ci ci' cj cj' where
      ci: "canvasAt fab eng time i = Some ci" and ci': "canvasAt fab eng time (Suc i) = Some ci'"
      and cj: "canvasAt fab eng time j = Some cj" and cj': "canvasAt fab eng time (Suc j) = Some cj'"
      by blast
    from ij have le: "i \<le> Suc i" "Suc i \<le> length ?lfs" "Suc i \<le> j" "j \<le> length ?lfs"
      "j \<le> Suc j" "Suc j \<le> length ?lfs" "Suc j \<le> length ?lfs"
      by simp_all
    from canvasAt_grows[OF assms(2) c le(1,2) ci ci']
    obtain a where a: "objects ci' = objects ci @ a" by (auto elim: prefixE)
    from canvasAt_grows[OF assms(2) c le(3,4) ci' cj]
    obtain mid where mid: "objects cj = objects ci' @ mid" by (auto elim: prefixE)
    from canvasAt_grows[OF assms(2) c le(5,6) cj cj']
    obtain b where b: "objects cj' = objects cj @ b" by (auto elim: prefixE)
    from canvasAt_grows[OF assms(2) c le(6) order_refl cj' final]
    obtain above where above: "objects cf = objects cj' @ above" by (auto elim: prefixE)
    have all: "objects cf = objects ci @ a @ mid @ b @ above"
      by (simp add: above b mid a)
    have occ: "\<forall>px. (\<exists>obj \<in> set b. paint obj px \<noteq> None) \<longrightarrow>
        pixelColour paint (objects cf) px = pixelColour paint (b @ above) px"
    proof (intro allI impI)
      fix px
      assume "\<exists>obj \<in> set b. paint obj px \<noteq> None"
      then have "\<exists>obj \<in> set (b @ above). paint obj px \<noteq> None" by auto
      from pixelColour_covered[of "b @ above" paint px "objects ci @ a @ mid", OF this]
      show "pixelColour paint (objects cf) px = pixelColour paint (b @ above) px"
        by (simp add: all)
    qed
    from r assms(3) have r': "r = None \<or> r = Some (paintCanvas paint cf)" by simp
    show "\<exists>below a mid b above cf.
              (\<exists>ci. canvasAt fab eng time i = Some ci \<and> objects ci = below)
            \<and> (\<exists>ci'. canvasAt fab eng time (Suc i) = Some ci' \<and> objects ci' = below @ a)
            \<and> (\<exists>cj. canvasAt fab eng time j = Some cj \<and> objects cj = below @ a @ mid)
            \<and> (\<exists>cj'. canvasAt fab eng time (Suc j) = Some cj'
                  \<and> objects cj' = below @ a @ mid @ b)
            \<and> canvasAt fab eng time (length ?lfs) = Some cf
            \<and> objects cf = below @ a @ mid @ b @ above
            \<and> key = JSON_stringify (toJSON fab) (objects cf)
            \<and> (r = None \<or> r = Some (paintCanvas paint cf))
            \<and> (\<forall>px. (\<exists>obj \<in> set b. paint obj px \<noteq> None) \<longrightarrow>
                  pixelColour paint (objects cf) px = pixelColour paint (b @ above) px)"
      apply (rule exI[of _ "objects ci"], rule exI[of _ a], rule exI[of _ mid],
          rule exI[of _ b], rule exI[of _ above], rule exI[of _ cf])
      using ci ci' cj cj' final all key r' occ by (simp add: a mid b)
  qed
  show ?thesis by (rule conjI[OF order conjI[OF steps zorder]])
qed

lemma twoLayers_at_3:
  "readNextFrame exampleFabric twoLayers 3 None =
     ([CreateFabricCanvas 2 1,
       FrameSourceReadNextFrame 0 (Finite (3 / 10)),
       RgbaToFabricImage [Some ''red'', Some ''red''],
       CanvasAdd (ImageObject 2 1 [Some ''red'', Some ''red'']),
       FrameSourceReadNextFrame 1 (Finite (1 / 2)),
       RgbaToFabricImage [Some ''blue'', None],
       CanvasAdd (ImageObject 2 1 [Some ''blue'', None]),
       JSONStringify, RenderFabricCanvas],
      twoLayers,
      Inr (Tuple (Some [Some ''blue'', Some ''red'']) ''[{image:redred},{image:blue-}]''))"
  by (simp add: ex_defs)

lemma twoLayers_appendOnly:
  "\<forall>lf \<in> set (layerFrameSources twoLayers). appendOnly (frameSource lf)"
  by (simp add: twoLayers_def appendOnly_def bufferSource_def)

lemma exampleFabric_paints: "renderFabricCanvas exampleFabric = paintCanvas examplePaint"
  by (simp add: exampleFabric_def)

lemma twoLayers_final_canvas:
  "canvasAt exampleFabric twoLayers 3 2 =
     Some \<lparr>canvas_width = 2, canvas_height = 1,
           objects = [ImageObject 2 1 [Some ''red'', Some ''red''],
                      ImageObject 2 1 [Some ''blue'', None]]\<rparr>"
  by (simp add: canvasAt_def drawLayer_def shouldDrawLayer_def offsetProgress_def
      js_divide_def createFabricCanvas_def canvas_add_def exampleFabric_def bufferSource_def
      exampleLayer_def twoLayers_def Let_def)

theorem layers_composited_in_declared_order_witness:
  "renderCalls (fst (readNextFrame exampleFabric twoLayers 3 None))
     = [(0, Finite (3 / 10)), (1, Finite (1 / 2))]
   \<and> snd (snd (readNextFrame exampleFabric twoLayers 3 None))
     = Inr (Tuple (Some [Some ''blue'', Some ''red'']) ''[{image:redred},{image:blue-}]'')
   \<and> (\<exists>cf. canvasAt exampleFabric twoLayers 3 2 = Some cf
          \<and> objects cf = [ImageObject 2 1 [Some ''red'', Some ''red''],
                           ImageObject 2 1 [Some ''blue'', None]]
          \<and> pixelColour examplePaint (objects cf) (0, 0) = Some ''blue''
          \<and> pixelColour examplePaint (objects cf) (1, 0) = Some ''red'')"
proof -
  note t = layers_composited_in_declared_order
    [OF twoLayers_at_3 twoLayers_appendOnly exampleFabric_paints]
  have a: "activeLayers 3 0 (layerFrameSources twoLayers)
      = [(0, Finite (3 / 10)), (1, Finite (1 / 2))]"
    by (simp add: twoLayers_def exampleLayer_def shouldDrawLayer_def offsetProgress_def
        js_divide_def)
  from t[THEN conjunct1] a
  have "renderCalls (fst (readNextFrame exampleFabric twoLayers 3 None))
     = [(0, Finite (3 / 10)), (1, Finite (1 / 2))]"
    by (simp add: twoLayers_at_3)
  moreover have "snd (snd (readNextFrame exampleFabric twoLayers 3 None))
     = Inr (Tuple (Some [Some ''blue'', Some ''red'']) ''[{image:redred},{image:blue-}]'')"
    by (simp add: twoLayers_at_3)
  moreover have "\<exists>cf. canvasAt exampleFabric twoLayers 3 2 = Some cf
          \<and> objects cf = [ImageObject 2 1 [Some ''red'', Some ''red''],
                           ImageObject 2 1 [Some ''blue'', None]]
          \<and> pixelColour examplePaint (objects cf) (0, 0) = Some ''blue''
          \<and> pixelColour examplePaint (objects cf) (1, 0) = Some ''red''"
    by (simp add: twoLayers_final_canvas pixelColour_def paintObject_def)
  ultimately show ?thesis by blast
qed

end
